theory Spec2Isabelle
  imports Main "HOL-Library.Char_ord" "HOL-Library.List_Lexorder" "HOL-Library.Multiset"
begin

section \<open>Data model\<close>

text \<open>
  A diary entry and a tag, as \<^verbatim>\<open>Diary.create\<close> and \<^verbatim>\<open>Tags.create\<close> build them.
  The \<^verbatim>\<open>tags\<close> field of an entry is optional: the code guards every use with
  \<^verbatim>\<open>entry.tags && ...\<close>, so \<open>None\<close> stands for an entry without that field.
  Strings are lists of characters; JavaScript compares them with \<^verbatim>\<open><\<close> code unit by code
  unit, which is the lexicographic order on \<^typ>\<open>string\<close> used here.
\<close>

record entry =
  entry_id :: string
  date :: string
  title :: string
  content :: string
  tags :: "string list option"
  images :: "string list"
  createdAt :: nat
  updatedAt :: nat

record tag =
  tag_id :: string
  tag_name :: string
  color :: string

text \<open>
  The entries collection is a JavaScript object keyed by date. It is an association list
  in the order of the object's own keys (insertion order: the keys are dates, never array
  indices); an object has each key once.
\<close>

type_synonym entries = "(string \<times> entry) list"

definition obj_get :: "('k \<times> 'v) list \<Rightarrow> 'k \<Rightarrow> 'v option" where
  \<comment> \<open>\<^verbatim>\<open>obj[k]\<close>\<close>
  "obj_get obj k = map_of obj k"

fun obj_set :: "('k \<times> 'v) list \<Rightarrow> 'k \<Rightarrow> 'v \<Rightarrow> ('k \<times> 'v) list" where
  \<comment> \<open>\<^verbatim>\<open>obj[k] = v\<close>: an existing key keeps its place, a new key goes last\<close>
  "obj_set [] k v = [(k, v)]"
| "obj_set ((k', v') # obj) k v =
     (if k' = k then (k, v) # obj else (k', v') # obj_set obj k v)"

definition obj_delete :: "('k \<times> 'v) list \<Rightarrow> 'k \<Rightarrow> ('k \<times> 'v) list" where
  \<comment> \<open>\<^verbatim>\<open>delete obj[k]\<close>\<close>
  "obj_delete obj k = filter (\<lambda>p. fst p \<noteq> k) obj"

definition spread :: "('k \<times> 'v) list \<Rightarrow> ('k \<times> 'v) list \<Rightarrow> ('k \<times> 'v) list" where
  \<comment> \<open>\<^verbatim>\<open>{ ...a, ...b }\<close>: the properties of \<open>a\<close>, then each property of \<open>b\<close> assigned in turn\<close>
  "spread a b = fold (\<lambda>p obj. obj_set obj (fst p) (snd p)) b a"

section \<open>storage.js: the store over localStorage\<close>

text \<open>
  \<^verbatim>\<open>localStorage\<close> holds text under string keys. The store only ever looks at a text
  through \<^verbatim>\<open>JSON.parse\<close>, so a held text is modelled by what parsing it does: \<open>Malformed\<close>
  when \<^verbatim>\<open>JSON.parse\<close> throws (or the text is empty, which \<^verbatim>\<open>get\<close> treats as absent
  without parsing), \<open>Json v\<close> when it yields the document \<open>v\<close>. \<^verbatim>\<open>JSON.stringify\<close> followed
  by \<^verbatim>\<open>JSON.parse\<close> gives the document back, so \<^verbatim>\<open>setItem(key, JSON.stringify(v))\<close> leaves
  \<open>Json v\<close> under the key.

  The persisted layout has two documents: the entries object under \<^verbatim>\<open>diary_entries\<close> and
  the tag array under \<^verbatim>\<open>diary_tags\<close>. A document of the other kind under one of these keys
  is outside that layout; the typed readers below read it as an absent document.

  \<^verbatim>\<open>setItem\<close> throws when the medium refuses the write (its quota is exceeded). Whether it
  does is up to the medium: \<open>setItemOk\<close> says, for the texts held now, the key and the
  document to write, whether the write goes through.
\<close>

datatype jsonval = JEntries entries | JTags "tag list"

datatype stored = Malformed | Json jsonval

record localStorage =
  items :: "string \<Rightarrow> stored option"
  setItemOk :: "(string \<Rightarrow> stored option) \<Rightarrow> string \<Rightarrow> jsonval \<Rightarrow> bool"

definition KEYS_ENTRIES :: string where
  "KEYS_ENTRIES = ''diary_entries''"

definition KEYS_TAGS :: string where
  "KEYS_TAGS = ''diary_tags''"

definition get :: "localStorage \<Rightarrow> string \<Rightarrow> jsonval option" where
  \<comment> \<open>\<open>None\<close> is \<^verbatim>\<open>null\<close>: no text, or the \<^verbatim>\<open>catch\<close> branch\<close>
  "get ls key =
     (case items ls key of
        None \<Rightarrow> None
      | Some Malformed \<Rightarrow> None
      | Some (Json v) \<Rightarrow> Some v)"

definition set_item :: "localStorage \<Rightarrow> string \<Rightarrow> jsonval \<Rightarrow> localStorage \<times> bool" where
  \<comment> \<open>\<^verbatim>\<open>set(key, value)\<close>: the new store and the returned boolean\<close>
  "set_item ls key v =
     (if setItemOk ls (items ls) key v
      then (ls\<lparr>items := (items ls)(key := Some (Json v))\<rparr>, True)
      else (ls, False))"

definition remove :: "localStorage \<Rightarrow> string \<Rightarrow> localStorage \<times> bool" where
  "remove ls key = (ls\<lparr>items := (items ls)(key := None)\<rparr>, True)"

definition getAllEntries :: "localStorage \<Rightarrow> entries" where
  \<comment> \<open>\<^verbatim>\<open>get(KEYS.ENTRIES) || {}\<close>\<close>
  "getAllEntries ls =
     (case get ls KEYS_ENTRIES of Some (JEntries es) \<Rightarrow> es | _ \<Rightarrow> [])"


definition saveEntry :: "localStorage \<Rightarrow> entry \<Rightarrow> localStorage \<times> bool" where
  "saveEntry ls e =
     (let entries = getAllEntries ls
      in set_item ls KEYS_ENTRIES (JEntries (obj_set entries (date e) e)))"

definition deleteEntry :: "localStorage \<Rightarrow> string \<Rightarrow> localStorage \<times> bool" where
  "deleteEntry ls d =
     (let entries = getAllEntries ls
      in if obj_get entries d \<noteq> None
         then set_item ls KEYS_ENTRIES (JEntries (obj_delete entries d))
         else (ls, False))"

definition getAllTags :: "localStorage \<Rightarrow> tag list" where
  \<comment> \<open>\<^verbatim>\<open>get(KEYS.TAGS) || []\<close>\<close>
  "getAllTags ls =
     (case get ls KEYS_TAGS of Some (JTags ts) \<Rightarrow> ts | _ \<Rightarrow> [])"

definition saveTags :: "localStorage \<Rightarrow> tag list \<Rightarrow> localStorage \<times> bool" where
  "saveTags ls ts = set_item ls KEYS_TAGS (JTags ts)"

definition addTag :: "localStorage \<Rightarrow> tag \<Rightarrow> localStorage \<times> bool" where
  "addTag ls t = (let ts = getAllTags ls in saveTags ls (ts @ [t]))"

definition deleteTag :: "localStorage \<Rightarrow> string \<Rightarrow> localStorage \<times> bool" where
  "deleteTag ls tagId =
     (let ts = getAllTags ls;
          filtered = filter (\<lambda>t. tag_id t \<noteq> tagId) ts
      in saveTags ls filtered)"


text \<open>
  The import input: \<open>None\<close> in \<open>snap_entries\<close> or \<open>snap_tags\<close> is an input without that
  field. \<^verbatim>\<open>importData\<close> throws inside its own \<^verbatim>\<open>try\<close> when a field is missing and
  returns \<^verbatim>\<open>false\<close> from the \<^verbatim>\<open>catch\<close>; the results of the \<^verbatim>\<open>set\<close> calls are dropped.
\<close>

record snapshot =
  snap_entries :: "entries option"
  snap_tags :: "tag list option"
  exportedAt :: string
  version :: string

definition importData :: "localStorage \<Rightarrow> snapshot \<Rightarrow> string \<Rightarrow> localStorage \<times> bool" where
  "importData ls data mode =
     (case (snap_entries data, snap_tags data) of
        (Some dataEntries, Some dataTags) \<Rightarrow>
          if mode = ''overwrite'' then
            (let ls1 = fst (set_item ls KEYS_ENTRIES (JEntries dataEntries));
                 ls2 = fst (set_item ls1 KEYS_TAGS (JTags dataTags))
             in (ls2, True))
          else
            (let currentEntries = getAllEntries ls;
                 currentTags = getAllTags ls;
                 mergedEntries = spread currentEntries dataEntries;
                 tagIds = set (map tag_id currentTags);
                 newTags = filter (\<lambda>t. tag_id t \<notin> tagIds) dataTags;
                 mergedTags = currentTags @ newTags;
                 ls1 = fst (set_item ls KEYS_ENTRIES (JEntries mergedEntries));
                 ls2 = fst (set_item ls1 KEYS_TAGS (JTags mergedTags))
             in (ls2, True))
      | _ \<Rightarrow> (ls, False))"

section \<open>tags.js: cascading tag removal\<close>





section \<open>search.js: the filter pipeline\<close>

text \<open>
  \<^verbatim>\<open>currentFilters\<close> is a variable of the module: \<^verbatim>\<open>search\<close> reads and replaces it, so the
  model takes the current value and returns the new one with the results. The argument of
  \<^verbatim>\<open>search\<close> is an object that may leave any field out (\<open>None\<close>); the spread
  \<^verbatim>\<open>{ ...currentFilters, ...filters }\<close> keeps the current value of a field left out.
\<close>

record filters =
  keyword :: string
  filter_tags :: "string list"
  fromDate :: "string option"
  toDate :: "string option"

record filterArg =
  arg_keyword :: "string option"
  arg_tags :: "string list option"
  arg_fromDate :: "string option option"
  arg_toDate :: "string option option"

definition initialFilters :: filters where
  "initialFilters = \<lparr>keyword = [], filter_tags = [], fromDate = None, toDate = None\<rparr>"

definition emptyArg :: filterArg where
  \<comment> \<open>the argument \<^verbatim>\<open>{}\<close>\<close>
  "emptyArg = \<lparr>arg_keyword = None, arg_tags = None, arg_fromDate = None, arg_toDate = None\<rparr>"

definition mergeFilters :: "filters \<Rightarrow> filterArg \<Rightarrow> filters" where
  \<comment> \<open>\<^verbatim>\<open>{ ...currentFilters, ...filters }\<close>\<close>
  "mergeFilters cur arg =
     \<lparr>keyword = (case arg_keyword arg of None \<Rightarrow> keyword cur | Some k \<Rightarrow> k),
      filter_tags = (case arg_tags arg of None \<Rightarrow> filter_tags cur | Some ts \<Rightarrow> ts),
      fromDate = (case arg_fromDate arg of None \<Rightarrow> fromDate cur | Some d \<Rightarrow> d),
      toDate = (case arg_toDate arg of None \<Rightarrow> toDate cur | Some d \<Rightarrow> d)\<rparr>"

definition truthy :: "string option \<Rightarrow> bool" where
  \<comment> \<open>a date bound used as a condition: \<^verbatim>\<open>null\<close> and the empty string are falsy\<close>
  "truthy d = (case d of None \<Rightarrow> False | Some s \<Rightarrow> s \<noteq> [])"

definition toLowerCase :: "string \<Rightarrow> string" where
  \<comment> \<open>on the ASCII letters; other characters are left as they are\<close>
  "toLowerCase s =
     map (\<lambda>c. case map_of (zip ''ABCDEFGHIJKLMNOPQRSTUVWXYZ'' ''abcdefghijklmnopqrstuvwxyz'') c of
                  None \<Rightarrow> c | Some l \<Rightarrow> l) s"

fun str_includes :: "string \<Rightarrow> string \<Rightarrow> bool" where
  \<comment> \<open>\<^verbatim>\<open>s.includes(t)\<close>: \<open>t\<close> occurs in \<open>s\<close> as a substring\<close>
  "str_includes [] t = (t = [])"
| "str_includes (c # cs) t = (take (length t) (c # cs) = t \<or> str_includes cs t)"

definition searchByKeyword :: "localStorage \<Rightarrow> string \<Rightarrow> entry list" where
  "searchByKeyword ls kw =
     (let entries = getAllEntries ls;
          lowerKeyword = toLowerCase kw
      in map snd
           (filter (\<lambda>(d, e).
                (title e \<noteq> [] \<and> str_includes (toLowerCase (title e)) lowerKeyword) \<or>
                (content e \<noteq> [] \<and> str_includes (toLowerCase (content e)) lowerKeyword))
              entries))"

definition filterByTags :: "entry list \<Rightarrow> string list option \<Rightarrow> entry list" where
  \<comment> \<open>\<open>None\<close> is a \<^verbatim>\<open>tagIds\<close> of \<^verbatim>\<open>null\<close> or \<^verbatim>\<open>undefined\<close>\<close>
  "filterByTags es tagIds =
     (case tagIds of
        None \<Rightarrow> es
      | Some ids \<Rightarrow>
          if ids = [] then es
          else filter (\<lambda>e. case tags e of
                              None \<Rightarrow> False
                            | Some ts \<Rightarrow>
                                if ts = [] then False
                                else list_ex (\<lambda>tagId. tagId \<in> set ts) ids) es)"

definition filterByDateRange :: "entry list \<Rightarrow> string option \<Rightarrow> string option \<Rightarrow> entry list" where
  "filterByDateRange es from to =
     filter (\<lambda>e. let entryDate = date e
                 in if truthy from \<and> entryDate < the from then False
                    else if truthy to \<and> entryDate > the to then False
                    else True) es"

definition localeCompare :: "string \<Rightarrow> string \<Rightarrow> int" where
  \<comment> \<open>taken as the code-unit order, with which the collation of zero-padded dates agrees\<close>
  "localeCompare s t = (if s < t then - 1 else if t < s then 1 else 0)"

fun insert_sorted :: "('a \<Rightarrow> 'a \<Rightarrow> int) \<Rightarrow> 'a \<Rightarrow> 'a list \<Rightarrow> 'a list" where
  "insert_sorted cmp x [] = [x]"
| "insert_sorted cmp x (y # ys) =
     (if cmp x y \<le> 0 then x # y # ys else y # insert_sorted cmp x ys)"

definition sort_by :: "('a \<Rightarrow> 'a \<Rightarrow> int) \<Rightarrow> 'a list \<Rightarrow> 'a list" where
  \<comment> \<open>\<^verbatim>\<open>Array.prototype.sort(cmp)\<close>: a stable sort, here by insertion\<close>
  "sort_by cmp xs = foldr (insert_sorted cmp) xs []"

definition search :: "localStorage \<Rightarrow> filters \<Rightarrow> filterArg \<Rightarrow> entry list \<times> filters" where
  \<comment> \<open>the results and the new value of \<^verbatim>\<open>currentFilters\<close>\<close>
  "search ls currentFilters arg =
     (let cur = mergeFilters currentFilters arg;
          results0 = (if keyword cur \<noteq> [] then searchByKeyword ls (keyword cur)
                      else map snd (getAllEntries ls));
          results1 = (if filter_tags cur \<noteq> [] then filterByTags results0 (Some (filter_tags cur))
                      else results0);
          results2 = (if truthy (fromDate cur) \<or> truthy (toDate cur)
                      then filterByDateRange results1 (fromDate cur) (toDate cur)
                      else results1)
      in (sort_by (\<lambda>a b. localeCompare (date b) (date a)) results2, cur))"

section \<open>calendar.js: the month grid\<close>

text \<open>
  \<^verbatim>\<open>Date\<close> is the platform's. \<^verbatim>\<open>new Date(year, month, day)\<close> is modelled as the calendar date
  it denotes in the proleptic Gregorian calendar: a year from 0 to 99 means 1900 + year,
  a month outside 0..11 carries into the year, and a day outside the month carries into
  the neighbouring months (day 0 is the last day of the month before). The range of time
  values of \<^verbatim>\<open>Date\<close> (100 million days around 1970) is not modelled: years are integers.
\<close>

definition isLeapYear :: "int \<Rightarrow> bool" where
  "isLeapYear y = (y mod 4 = 0 \<and> (y mod 100 \<noteq> 0 \<or> y mod 400 = 0))"

definition daysInMonth :: "int \<Rightarrow> int \<Rightarrow> int" where
  \<comment> \<open>months are 0..11\<close>
  "daysInMonth y m =
     (if m = 1 then (if isLeapYear y then 29 else 28)
      else if m = 3 \<or> m = 5 \<or> m = 8 \<or> m = 10 then 30
      else 31)"

record jsdate =
  fullYear :: int
  month :: int
  dayOfMonth :: int

function carryDown :: "int \<Rightarrow> int \<Rightarrow> int \<Rightarrow> jsdate" where
  "carryDown y m d =
     (if d < 1 then
        (let y' = (if m = 0 then y - 1 else y);
             m' = (if m = 0 then 11 else m - 1)
         in carryDown y' m' (d + daysInMonth y' m'))
      else \<lparr>fullYear = y, month = m, dayOfMonth = d\<rparr>)"
  by pat_completeness auto
termination
  by (relation "measure (\<lambda>(y, m, d). nat (1 - d))") (auto simp: daysInMonth_def)

function carryUp :: "int \<Rightarrow> int \<Rightarrow> int \<Rightarrow> jsdate" where
  "carryUp y m d =
     (if d > daysInMonth y m then
        carryUp (if m = 11 then y + 1 else y) (if m = 11 then 0 else m + 1) (d - daysInMonth y m)
      else \<lparr>fullYear = y, month = m, dayOfMonth = d\<rparr>)"
  by pat_completeness auto
termination
  by (relation "measure (\<lambda>(y, m, d). nat d)") (auto simp: daysInMonth_def split: if_splits)

definition newDate :: "int \<Rightarrow> int \<Rightarrow> int \<Rightarrow> jsdate" where
  \<comment> \<open>\<^verbatim>\<open>new Date(year, month, day)\<close>\<close>
  "newDate y m d =
     (let yr = (if 0 \<le> y \<and> y \<le> 99 then 1900 + y else y);
          ym = yr + m div 12;
          mn = m mod 12
      in if d < 1 then carryDown ym mn d else carryUp ym mn d)"


definition dayNumber :: "jsdate \<Rightarrow> int" where
  \<comment> \<open>days since 1 January of year 1, a Monday\<close>
  "dayNumber t =
     (let y = fullYear t - 1
      in 365 * y + y div 4 - y div 100 + y div 400
         + (\<Sum>k \<leftarrow> [0..month t - 1]. daysInMonth (fullYear t) k)
         + (dayOfMonth t - 1))"

definition getDay :: "jsdate \<Rightarrow> int" where
  \<comment> \<open>0 is Sunday\<close>
  "getDay t = (dayNumber t + 1) mod 7"

fun showNat :: "nat \<Rightarrow> string" where
  "showNat n =
     (if n < 10 then [''0123456789'' ! n]
      else showNat (n div 10) @ [''0123456789'' ! (n mod 10)])"

definition showInt :: "int \<Rightarrow> string" where
  \<comment> \<open>\<^verbatim>\<open>String(n)\<close> of an integer\<close>
  "showInt i = (if i < 0 then CHR ''-'' # showNat (nat (- i)) else showNat (nat i))"

definition padStart :: "string \<Rightarrow> nat \<Rightarrow> char \<Rightarrow> string" where
  "padStart s n c = replicate (n - length s) c @ s"

definition dateStringOf :: "int \<Rightarrow> int \<Rightarrow> int \<Rightarrow> string" where
  \<comment> \<open>the template of \<^verbatim>\<open>renderDays\<close>, given the year, the month number 1..12 and the day\<close>
  "dateStringOf y m1 d =
     showInt y @ ''-'' @ padStart (showInt m1) 2 (CHR ''0'') @ ''-''
       @ padStart (showInt d) 2 (CHR ''0'')"





section \<open>Notions used in the statements\<close>





definition dateYear :: "int \<Rightarrow> int" where
  \<comment> \<open>the year \<^verbatim>\<open>new Date(y, ...)\<close> means\<close>
  "dateYear y = (if 0 \<le> y \<and> y \<le> 99 then 1900 + y else y)"




definition gridCell :: "int \<Rightarrow> int \<Rightarrow> nat \<Rightarrow> int \<times> string \<times> bool" where
  \<comment> \<open>\<open>stepCell\<close> with what \<^verbatim>\<open>Date\<close> gives for the weekday of the 1st and the two month
      lengths, for a month 0..11\<close>
  "gridCell y m i =
     (let s = getDay (newDate y m 1);
          n = daysInMonth (dateYear y) m;
          p = daysInMonth (dateYear y + (m - 1) div 12) ((m - 1) mod 12)
      in if int i < s then
           (p - (s - 1 - int i),
            dateStringOf (y + (m - 1) div 12) ((m - 1) mod 12 + 1) (p - (s - 1 - int i)), True)
         else if int i < s + n then
           (int i - s + 1, dateStringOf y (m + 1) (int i - s + 1), False)
         else
           (int i - s - n + 1,
            dateStringOf (y + (m + 1) div 12) ((m + 1) mod 12 + 1) (int i - s - n + 1), True))"

text \<open>
  The grid as the specification words it, for year \<open>y\<close> and month \<open>m\<close>: with \<open>s\<close> the
  weekday of the 1st of that month, \<open>n\<close> the length of the month and \<open>p\<close> the length of
  the month before, cell \<open>i\<close> below \<open>s\<close> is a day of the previous month counted back from
  its last day, the next \<open>n\<close> cells are the days 1..n of the month, and the rest are the
  next month from day 1 on; the neighbouring months take their year by carrying the month
  over 12.
\<close>

definition specCell :: "int \<Rightarrow> int \<Rightarrow> nat \<Rightarrow> int \<times> string \<times> bool" where
  "specCell y m i =
     (let s = getDay \<lparr>fullYear = y, month = m, dayOfMonth = 1\<rparr>;
          n = daysInMonth y m;
          p = daysInMonth (y + (m - 1) div 12) ((m - 1) mod 12)
      in if int i < s then
           (p - (s - 1 - int i),
            dateStringOf (y + (m - 1) div 12) ((m - 1) mod 12 + 1) (p - (s - 1 - int i)), True)
         else if int i < s + n then
           (int i - s + 1, dateStringOf y (m + 1) (int i - s + 1), False)
         else
           (int i - s - n + 1,
            dateStringOf (y + (m + 1) div 12) ((m + 1) mod 12 + 1) (int i - s - n + 1), True))"

subsection \<open>Example stores\<close>

definition storeOf :: "entries \<Rightarrow> tag list \<Rightarrow> bool \<Rightarrow> localStorage" where
  \<comment> \<open>a store holding the two documents, on a medium that takes every write or none\<close>
  "storeOf es ts ok =
     \<lparr>items = (\<lambda>k. if k = KEYS_ENTRIES then Some (Json (JEntries es))
                   else if k = KEYS_TAGS then Some (Json (JTags ts)) else None),
      setItemOk = (\<lambda>_ _ _. ok)\<rparr>"

definition mkEntry :: "string \<Rightarrow> string \<Rightarrow> string list \<Rightarrow> entry" where
  "mkEntry d t ts =
     \<lparr>entry_id = ''entry_'' @ d, date = d, title = t, content = ''text'',
      tags = Some ts, images = [], createdAt = 0, updatedAt = 0\<rparr>"

definition tagWork :: tag where
  "tagWork = \<lparr>tag_id = ''T1'', tag_name = ''Work'', color = ''#4a90d9''\<rparr>"

definition tagTravail :: tag where
  "tagTravail = \<lparr>tag_id = ''T1'', tag_name = ''Travail'', color = ''#ff0000''\<rparr>"

definition tagHome :: tag where
  "tagHome = \<lparr>tag_id = ''T2'', tag_name = ''Home'', color = ''#00ff00''\<rparr>"

definition exampleEntries :: entries where
  "exampleEntries =
     [(''2024-01-05'', mkEntry ''2024-01-05'' ''First'' [''T1'']),
      (''2024-01-20'', mkEntry ''2024-01-20'' ''Second'' [])]"

definition exampleStore :: localStorage where
  "exampleStore = storeOf exampleEntries [tagWork] True"

definition fullStore :: localStorage where
  \<comment> \<open>the same documents on a medium whose quota is used up\<close>
  "fullStore = storeOf exampleEntries [tagWork] False"

definition exampleSnapshot :: snapshot where
  "exampleSnapshot =
     \<lparr>snap_entries = Some [(''2024-01-05'', mkEntry ''2024-01-05'' ''Imported'' [])],
      snap_tags = Some [tagTravail, tagHome],
      exportedAt = ''2024-02-01T00:00:00.000Z'', version = ''1.0''\<rparr>"

definition keywordArg :: filterArg where
  "keywordArg = emptyArg\<lparr>arg_keyword := Some ''second''\<rparr>"

definition fromDateArg :: filterArg where
  "fromDateArg = emptyArg\<lparr>arg_fromDate := Some (Some ''2024-01-10'')\<rparr>"




section \<open>The store\<close>

declare carryDown.simps [simp del] carryUp.simps [simp del]

lemmas store_defs = exampleStore_def fullStore_def storeOf_def exampleEntries_def mkEntry_def
  tagWork_def tagTravail_def tagHome_def exampleSnapshot_def KEYS_ENTRIES_def KEYS_TAGS_def
  getAllEntries_def getAllTags_def get_def set_item_def

lemma KEYS_distinct: "KEYS_ENTRIES \<noteq> KEYS_TAGS"
  by (simp add: KEYS_ENTRIES_def KEYS_TAGS_def)


lemma setItemOk_set_item [simp]: "setItemOk (fst (set_item ls key v)) = setItemOk ls"
  by (simp add: set_item_def)





text \<open>
  C7. When the text held under a key is not valid JSON, \<^verbatim>\<open>get\<close> returns null instead of
  raising, and the typed readers degrade to the empty collection: \<^verbatim>\<open>getAllEntries\<close> to the
  empty object when the entries text is corrupt, \<^verbatim>\<open>getAllTags\<close> to the empty array when
  the tags text is corrupt. Every reader is a total function with no error result, so no
  serialization error leaves the store layer.
\<close>

theorem get_malformed_is_null:
  "(items ls key = Some Malformed \<longrightarrow> get ls key = None) \<and>
   (items ls KEYS_ENTRIES = Some Malformed \<longrightarrow> getAllEntries ls = []) \<and>
   (items ls KEYS_TAGS = Some Malformed \<longrightarrow> getAllTags ls = [])"
  by (simp add: get_def getAllEntries_def getAllTags_def)

theorem get_malformed_is_null_witness:
  "items \<lparr>items = (\<lambda>k. Some Malformed), setItemOk = (\<lambda>_ _ _. True)\<rparr> ''diary_entries''
     = Some Malformed \<and>
   get \<lparr>items = (\<lambda>k. Some Malformed), setItemOk = (\<lambda>_ _ _. True)\<rparr> ''diary_entries'' = None \<and>
   getAllEntries \<lparr>items = (\<lambda>k. Some Malformed), setItemOk = (\<lambda>_ _ _. True)\<rparr> = [] \<and>
   getAllTags \<lparr>items = (\<lambda>k. Some Malformed), setItemOk = (\<lambda>_ _ _. True)\<rparr> = []"
  using get_malformed_is_null
    [of "\<lparr>items = (\<lambda>k. Some Malformed), setItemOk = (\<lambda>_ _ _. True)\<rparr>" "''diary_entries''"]
  by simp

text \<open>
  Deleting what is not there. \<^verbatim>\<open>deleteEntry\<close> of a date with no stored entry returns
  false and writes nothing. \<^verbatim>\<open>deleteTag\<close> has no such check: for an id that no stored tag
  has it writes the tag sequence back as it was, so both collections read as before, and
  it returns the result of that write.
\<close>

lemma delete_missing:
  "(obj_get (getAllEntries ls) d = None \<longrightarrow> deleteEntry ls d = (ls, False)) \<and>
   (tagId \<notin> tag_id ` set (getAllTags ls) \<longrightarrow>
      getAllTags (fst (deleteTag ls tagId)) = getAllTags ls \<and>
      getAllEntries (fst (deleteTag ls tagId)) = getAllEntries ls \<and>
      snd (deleteTag ls tagId) = setItemOk ls (items ls) KEYS_TAGS (JTags (getAllTags ls)))"
proof -
  have f: "tagId \<notin> tag_id ` set ts \<Longrightarrow> filter (\<lambda>t. tag_id t \<noteq> tagId) ts = ts"
    for ts :: "tag list"
    by (induction ts) auto
  show ?thesis
    using KEYS_distinct
    by (auto simp: deleteEntry_def deleteTag_def saveTags_def f set_item_def Let_def
        getAllTags_def getAllEntries_def get_def)
qed

text \<open>
  C5. \<^verbatim>\<open>deleteEntry\<close> and \<^verbatim>\<open>deleteTag\<close> on a missing target should both return false and
  leave the collections unchanged. \<^verbatim>\<open>deleteTag\<close> does not: in the example store, which has
  the single tag \<open>T1\<close>, deleting the absent id \<open>T2\<close> leaves the tags as they were but
  returns true, while \<^verbatim>\<open>deleteEntry\<close> of an absent date returns false.
\<close>

theorem deleteTag_missing_returns_true:
  "''T2'' \<notin> tag_id ` set (getAllTags exampleStore) \<and>
   snd (deleteTag exampleStore ''T2'') = True \<and>
   getAllTags (fst (deleteTag exampleStore ''T2'')) = getAllTags exampleStore \<and>
   obj_get (getAllEntries exampleStore) ''2024-03-01'' = None \<and>
   deleteEntry exampleStore ''2024-03-01'' = (exampleStore, False)"
  by (simp add: deleteTag_def saveTags_def deleteEntry_def Let_def store_defs obj_get_def)

section \<open>Import\<close>



text \<open>
  C3. An import input without its \<^verbatim>\<open>entries\<close> field or without its \<^verbatim>\<open>tags\<close> field makes
  \<^verbatim>\<open>importData\<close> return false with the store exactly as it was: the check comes before
  any write.
\<close>

theorem importData_missing_field:
  "snap_entries data = None \<or> snap_tags data = None \<Longrightarrow> importData ls data mode = (ls, False)"
  by (auto simp: importData_def split: option.splits)

theorem importData_missing_field_witness:
  "snap_entries (exampleSnapshot\<lparr>snap_entries := None\<rparr>) = None \<and>
   importData exampleStore (exampleSnapshot\<lparr>snap_entries := None\<rparr>) ''merge''
     = (exampleStore, False)"
  using importData_missing_field [of "exampleSnapshot\<lparr>snap_entries := None\<rparr>" exampleStore "''merge''"]
  by simp






section \<open>Cascading tag removal\<close>










section \<open>Search\<close>

text \<open>
  C8. \<^verbatim>\<open>filterByTags\<close> with an empty selection of tag ids (or none at all) returns its
  input sequence as it is.
\<close>

theorem filterByTags_empty_selection:
  "filterByTags es (Some []) = es \<and> filterByTags es None = es"
  by (simp add: filterByTags_def)









lemmas search_defs = search_def Let_def mergeFilters_def initialFilters_def emptyArg_def
  keywordArg_def fromDateArg_def truthy_def sort_by_def localeCompare_def searchByKeyword_def
  toLowerCase_def filterByDateRange_def filterByTags_def




text \<open>
  C9. \<^verbatim>\<open>search\<close> is not a function of its argument alone. It leaves the merged criteria
  in the module's filter state, and a field the argument leaves out keeps the value it
  had there, so a criterion of an earlier call is in effect in a later one. There are two
  calls with the same argument, with one call in between and the store untouched, that
  return different results.
\<close>

theorem search_keeps_filter_state:
  "snd (search ls cur arg) = mergeFilters cur arg \<and>
   (arg_keyword arg = None \<longrightarrow> keyword (snd (search ls cur arg)) = keyword cur) \<and>
   (arg_tags arg = None \<longrightarrow> filter_tags (snd (search ls cur arg)) = filter_tags cur) \<and>
   (arg_fromDate arg = None \<longrightarrow> fromDate (snd (search ls cur arg)) = fromDate cur) \<and>
   (arg_toDate arg = None \<longrightarrow> toDate (snd (search ls cur arg)) = toDate cur) \<and>
   (\<exists>ls0 cur0 a b.
      fst (search ls0 (snd (search ls0 (snd (search ls0 cur0 a)) b)) a) \<noteq> fst (search ls0 cur0 a))"
proof -
  have "fst (search exampleStore
               (snd (search exampleStore (snd (search exampleStore initialFilters emptyArg))
                       fromDateArg)) emptyArg)
          \<noteq> fst (search exampleStore initialFilters emptyArg)"
    by (simp add: search_defs store_defs)
  then have "\<exists>ls0 cur0 a b.
      fst (search ls0 (snd (search ls0 (snd (search ls0 cur0 a)) b)) a) \<noteq> fst (search ls0 cur0 a)"
    by blast
  then show ?thesis
    by (simp add: search_def Let_def mergeFilters_def)
qed

theorem search_keeps_filter_state_witness:
  "arg_fromDate emptyArg = None \<and>
   fromDate (snd (search exampleStore (snd (search exampleStore initialFilters fromDateArg)) emptyArg))
     = Some ''2024-01-10'' \<and>
   fst (search exampleStore initialFilters emptyArg)
     = [mkEntry ''2024-01-20'' ''Second'' [], mkEntry ''2024-01-05'' ''First'' [''T1'']] \<and>
   fst (search exampleStore (snd (search exampleStore initialFilters fromDateArg)) emptyArg)
     = [mkEntry ''2024-01-20'' ''Second'' []]"
  using search_keeps_filter_state
    [of exampleStore "snd (search exampleStore initialFilters fromDateArg)" emptyArg]
  by (simp add: search_defs store_defs)

section \<open>The calendar grid\<close>










lemmas date_defs = specCell_def gridCell_def Let_def getDay_def newDate_def dayNumber_def
  daysInMonth_def isLeapYear_def dateYear_def carryUp.simps dateStringOf_def showInt_def
  padStart_def

lemma first_of_february_2024: "getDay (newDate 2024 1 1) = 4"
  by (simp add: date_defs)







end
